theory Spec2Isabelle
  imports Complex_Main
begin

section \<open>Python values\<close>

text \<open>
  The program moves JSON documents around as Python dictionaries, lists, strings and
  numbers. A value of \<open>json\<close> is such a Python object; \<open>JNull\<close> is \<open>None\<close>.
  Numbers are real numbers: neither NaN nor the rounding of floating point is modelled.
  A dictionary is an association list read with \<open>map_of\<close>.
\<close>

datatype json =
    JNull
  | JBool bool
  | JNum real
  | JStr string
  | JArr "json list"
  | JObj "(string \<times> json) list"

text \<open>Python's truth value of an object (\<open>if x:\<close>, \<open>not x\<close>).\<close>

fun truthy :: "json \<Rightarrow> bool" where
  "truthy JNull = False"
| "truthy (JBool b) = b"
| "truthy (JNum r) = (r \<noteq> 0)"
| "truthy (JStr s) = (s \<noteq> [])"
| "truthy (JArr xs) = (xs \<noteq> [])"
| "truthy (JObj kvs) = (kvs \<noteq> [])"

text \<open>\<open>d.get(key, default)\<close> on a dictionary.\<close>

definition dict_get :: "(string \<times> json) list \<Rightarrow> string \<Rightarrow> json \<Rightarrow> json" where
  "dict_get kvs k d = (case map_of kvs k of None \<Rightarrow> d | Some v \<Rightarrow> v)"

section \<open>alarm\_system.py\<close>

subsection \<open>The persisted alarm log\<close>

text \<open>
  What \<open>logs/alarm_log.json\<close> holds when \<open>_log_alarm\<close> looks at it: no file, a file
  that \<open>json.load\<close> rejects, or a file holding a JSON value. The file system itself is
  taken to be reliable (\<open>os.makedirs\<close> and the write succeed).
\<close>

datatype log_file = NoFile | Unparseable | Stored json

text \<open>
  \<open>_log_alarm\<close>: the entry is built, the existing log is read (\<open>[]\<close> when the file is
  missing or unreadable), the entry is appended, the last 1000 are kept
  (\<open>logs[-1000:]\<close>) and written back. When the file holds a JSON value that is not a
  list, \<open>logs.append\<close> raises, the outer \<open>except\<close> prints the error and the file is left
  as it was.
\<close>

definition log_alarm :: "string \<Rightarrow> string \<Rightarrow> string \<Rightarrow> string \<Rightarrow> log_file \<Rightarrow> log_file" where
  "log_alarm now alert_type message severity f =
     (let log_entry = JObj [(''timestamp'', JStr now),
                            (''alert_type'', JStr alert_type),
                            (''message'', JStr message),
                            (''severity'', JStr severity),
                            (''status'', JStr ''activated'')]
      in case f of
           NoFile \<Rightarrow> Stored (JArr (drop (length [log_entry] - 1000) [log_entry]))
         | Unparseable \<Rightarrow> Stored (JArr (drop (length [log_entry] - 1000) [log_entry]))
         | Stored (JArr logs) \<Rightarrow>
             Stored (JArr (drop (length (logs @ [log_entry]) - 1000) (logs @ [log_entry])))
         | Stored _ \<Rightarrow> f)"

subsection \<open>The alarm object\<close>

text \<open>
  A notification thread carries the arguments it was started with and the clock reading
  \<open>start_time\<close> it takes when it begins to run.
\<close>

record alarm_thread =
  thread_alert_type :: string
  thread_message :: string
  thread_severity :: string
  start_time :: real

text \<open>
  \<open>AlarmSystem\<close>: the flag \<open>is_active\<close>, the handle \<open>alarm_thread\<close> of the thread
  created last, and the log file. \<open>threads\<close> lists every thread that
  \<open>Thread.start()\<close> has started, newest first.
\<close>

record AlarmSystem =
  is_active :: bool
  alarm_thread :: "alarm_thread option"
  threads :: "alarm_thread list"
  log_file :: log_file

definition init_alarm :: AlarmSystem where
  "init_alarm = \<lparr>is_active = False, alarm_thread = None, threads = [], log_file = NoFile\<rparr>"

text \<open>
  \<open>trigger_alarm\<close>: \<open>t\<close> is \<open>time.time()\<close> as the new thread reads it, \<open>now\<close> is
  \<open>datetime.now().isoformat()\<close> as \<open>_log_alarm\<close> reads it.
\<close>

definition trigger_alarm ::
  "real \<Rightarrow> string \<Rightarrow> string \<Rightarrow> string \<Rightarrow> string \<Rightarrow> AlarmSystem \<Rightarrow> AlarmSystem" where
  "trigger_alarm t now alert_type message severity s =
     (if \<not> is_active s then
        let th = \<lparr>thread_alert_type = alert_type, thread_message = message,
                  thread_severity = severity, start_time = t\<rparr>
        in s\<lparr>is_active := True,
             alarm_thread := Some th,
             threads := th # threads s,
             log_file := log_alarm now alert_type message severity (log_file s)\<rparr>
      else s)"

definition stop_alarm :: "AlarmSystem \<Rightarrow> AlarmSystem" where
  "stop_alarm s = s\<lparr>is_active := False\<rparr>"

definition get_alarm_duration :: "string \<Rightarrow> real" where
  "get_alarm_duration severity =
     (case map_of [(''high'', 60), (''medium'', 30), (''low'', 15)] severity of
        None \<Rightarrow> 30 | Some d \<Rightarrow> d)"

text \<open>
  One evaluation, at time \<open>t\<close>, of the condition of the \<open>while\<close> of \<open>_alarm_loop\<close>
  by the thread \<open>th\<close>: \<open>self.is_active and (time.time() - start_time) < alarm_duration\<close>.
  The thread reads the shared flag as it is at that moment, and the clock only when the
  flag is set. The result says whether the thread goes round again; a round (sound,
  console output, notification, sleep) changes no field of the alarm object. When the
  condition fails the thread leaves the loop, and the line after the loop writes
  \<open>is_active = False\<close>, whatever made the condition fail.
\<close>

definition alarm_loop_test :: "alarm_thread \<Rightarrow> real \<Rightarrow> AlarmSystem \<Rightarrow> bool \<times> AlarmSystem" where
  "alarm_loop_test th t s =
     (let alarm_duration = get_alarm_duration (thread_severity th)
      in if is_active s \<and> t - start_time th < alarm_duration then (True, s)
         else (False, s\<lparr>is_active := False\<rparr>))"

text \<open>
  The alarm object together with the threads that are inside their loop, oldest first.
  \<open>stop_alarm\<close> only clears the flag: it ends no thread, and a thread finds out at its
  next test of the condition.
\<close>

record alarm_process =
  alarm_object :: AlarmSystem
  looping :: "alarm_thread list"

definition init_process :: alarm_process where
  "init_process = \<lparr>alarm_object = init_alarm, looping = []\<rparr>"

text \<open>
  What happens to the alarm, one event at a time: a call of \<open>trigger_alarm\<close> (the thread
  it starts, if any, enters its loop), a call of \<open>stop_alarm\<close>, and a test of the loop
  condition by one of the looping threads at a given time.
\<close>

datatype alarm_event =
    Trigger real string string string string
  | Stop
  | LoopTest alarm_thread real

definition alarm_step :: "alarm_event \<Rightarrow> alarm_process \<Rightarrow> alarm_process" where
  "alarm_step ev p =
     (case ev of
        Trigger t now alert_type message severity \<Rightarrow>
          (let s' = trigger_alarm t now alert_type message severity (alarm_object p)
           in p\<lparr>alarm_object := s',
                looping := (if is_active (alarm_object p) then looping p
                            else looping p @ take 1 (threads s'))\<rparr>)
      | Stop \<Rightarrow> p\<lparr>alarm_object := stop_alarm (alarm_object p)\<rparr>
      | LoopTest th t \<Rightarrow>
          if th \<in> set (looping p) then
            (case alarm_loop_test th t (alarm_object p) of
               (True, s') \<Rightarrow> p\<lparr>alarm_object := s'\<rparr>
             | (False, s') \<Rightarrow> p\<lparr>alarm_object := s', looping := remove1 th (looping p)\<rparr>)
          else p)"

definition alarm_run :: "alarm_event list \<Rightarrow> alarm_process \<Rightarrow> alarm_process" where
  "alarm_run evs p = fold alarm_step evs p"

section \<open>app.py: the capture loop\<close>

text \<open>
  A frame is the flat list of the values of an image array; \<open>frame.size\<close> is its length.
\<close>

type_synonym frame = "nat list"










section \<open>ai\_service.py\<close>

datatype py_error = TypeError | JSONDecodeError | OtherError

text \<open>
  The answer to one \<open>requests.post\<close>: the call raises (a timeout, a refused
  connection), or a response arrives with its status code and the text
  \<open>result['choices'][0]['message']['content']\<close>, \<open>None\<close> when the body has no such text
  (reading it raises).
\<close>

datatype http = RequestFailed | Response int "string option"

text \<open>
  What the service and the pipeline take from outside the repository: the image codecs,
  the network, \<open>json.loads\<close> (\<open>None\<close> for \<open>JSONDecodeError\<close>), the crop of a frame to a
  bounding box (lines 289 to 295 of \<open>process_frame_for_faces\<close>: floating point products
  and a numpy slice; \<open>None\<close> when one of them raises), the decoding of a submitted frame
  (\<open>base64.b64decode\<close>, \<open>np.frombuffer\<close>, \<open>cv2.imdecode\<close>), Python's \<open>hash\<close> and the
  text of an exception. The answer of the network is a function of the request.
\<close>

record services =
  encode_image :: "frame \<Rightarrow> string option"
  post_detect :: "string \<Rightarrow> http"
  post_extract :: "string \<Rightarrow> http"
  post_compare :: "json \<Rightarrow> json \<Rightarrow> http"
  json_loads :: "string \<Rightarrow> json option"
  crop_region :: "frame \<Rightarrow> json \<Rightarrow> frame option"
  decode_frame :: "json \<Rightarrow> py_error + frame option"
  hash_text :: "string \<Rightarrow> string"
  str_exc :: "py_error \<Rightarrow> string"

text \<open>\<open>str.find\<close> and \<open>str.rfind\<close> for one character, and the slice \<open>s[a:b]\<close> for \<open>0 \<le> a\<close>.\<close>

definition py_find :: "char \<Rightarrow> string \<Rightarrow> int" where
  "py_find c s = (if c \<in> set s then int (length (takeWhile (\<lambda>x. x \<noteq> c) s)) else - 1)"

definition py_rfind :: "char \<Rightarrow> string \<Rightarrow> int" where
  "py_rfind c s =
     (if c \<in> set s then int (length s) - 1 - int (length (takeWhile (\<lambda>x. x \<noteq> c) (rev s)))
      else - 1)"

definition py_slice :: "string \<Rightarrow> int \<Rightarrow> int \<Rightarrow> string" where
  "py_slice s a b = take (nat (b - a)) (drop (nat a) s)"

text \<open>
  \<open>detect_faces_in_image\<close>. The result is a Python object: \<open>[]\<close> on every handled
  failure, \<open>face_data.get('faces', [])\<close> on success, and \<open>None\<close> where the function
  falls off its end (status 200 and no brace pair in the text).
\<close>

definition detect_faces_in_image :: "services \<Rightarrow> frame \<Rightarrow> json" where
  "detect_faces_in_image sv image_data =
     (case encode_image sv image_data of
        None \<Rightarrow> JArr []
      | Some base64_image \<Rightarrow>
          if base64_image = [] then JArr []
          else
            (case post_detect sv base64_image of
               RequestFailed \<Rightarrow> JArr []
             | Response status_code body \<Rightarrow>
                 if status_code = 200 then
                   (case body of
                      None \<Rightarrow> JArr []
                    | Some content \<Rightarrow>
                        (let start_idx = py_find CHR ''{'' content;
                             end_idx = py_rfind CHR ''}'' content + 1
                         in if start_idx \<ge> 0 \<and> end_idx > start_idx then
                              (case json_loads sv (py_slice content start_idx end_idx) of
                                 None \<Rightarrow> JArr []
                               | Some (JObj face_data) \<Rightarrow> dict_get face_data ''faces'' (JArr [])
                               | Some _ \<Rightarrow> JArr [])
                            else JNull))
                 else JArr []))"

text \<open>
  \<open>extract_face_features\<close>: \<open>None\<close> on a handled failure and where the function falls
  off its end; the parsed object on success; and, when the brace-delimited text is not
  JSON, a descriptor made of the raw text.
\<close>

definition extract_face_features :: "services \<Rightarrow> frame \<Rightarrow> json" where
  "extract_face_features sv image_data =
     (case encode_image sv image_data of
        None \<Rightarrow> JNull
      | Some base64_image \<Rightarrow>
          if base64_image = [] then JNull
          else
            (case post_extract sv base64_image of
               RequestFailed \<Rightarrow> JNull
             | Response status_code body \<Rightarrow>
                 if status_code = 200 then
                   (case body of
                      None \<Rightarrow> JNull
                    | Some content \<Rightarrow>
                        (let start_idx = py_find CHR ''{'' content;
                             end_idx = py_rfind CHR ''}'' content + 1
                         in if start_idx \<ge> 0 \<and> end_idx > start_idx then
                              (case json_loads sv (py_slice content start_idx end_idx) of
                                 None \<Rightarrow>
                                   JObj [(''feature_vector'', JStr content),
                                         (''key_features'', JArr []),
                                         (''face_hash'', JStr (hash_text sv content))]
                               | Some feature_data \<Rightarrow> feature_data)
                            else JNull))
                 else JNull))"

text \<open>
  \<open>compare_faces\<close>: \<open>0.0\<close> on a handled failure, the value of \<open>similarity_score\<close> on
  success, \<open>None\<close> where the function falls off its end.
\<close>

definition compare_faces :: "services \<Rightarrow> json \<Rightarrow> json \<Rightarrow> json" where
  "compare_faces sv face1_features face2_features =
     (if \<not> truthy face1_features \<or> \<not> truthy face2_features then JNum 0
      else
        (case post_compare sv face1_features face2_features of
           RequestFailed \<Rightarrow> JNum 0
         | Response status_code body \<Rightarrow>
             if status_code = 200 then
               (case body of
                  None \<Rightarrow> JNum 0
                | Some content \<Rightarrow>
                    (let start_idx = py_find CHR ''{'' content;
                         end_idx = py_rfind CHR ''}'' content + 1
                     in if start_idx \<ge> 0 \<and> end_idx > start_idx then
                          (case json_loads sv (py_slice content start_idx end_idx) of
                             None \<Rightarrow> JNum 0
                           | Some (JObj comparison_data) \<Rightarrow>
                               dict_get comparison_data ''similarity_score'' (JNum 0)
                           | Some _ \<Rightarrow> JNum 0)
                        else JNull))
             else JNum 0))"

text \<open>
  What a \<open>for\<close> loop goes through: the items of a list, the characters of a string,
  the keys of a dictionary. Any other object is not iterable.
\<close>

fun py_iter :: "json \<Rightarrow> json list option" where
  "py_iter (JArr xs) = Some xs"
| "py_iter (JStr s) = Some (map (\<lambda>c. JStr [c]) s)"
| "py_iter (JObj kvs) = Some (map (\<lambda>kv. JStr (fst kv)) kvs)"
| "py_iter _ = None"

text \<open>The dictionary that \<open>process_frame_for_faces\<close> appends for one face.\<close>

record face_data =
  bbox :: json
  confidence :: json
  features :: json
  face_region :: frame

text \<open>The calls that the pipeline makes to the world outside, in order.\<close>

datatype call =
    DecodeFrame json
  | DetectFaces frame
  | ExtractFeatures frame
  | CompareFaces json json

text \<open>
  The \<open>for\<close> loop of \<open>process_frame_for_faces\<close>. An item that is not a dictionary
  makes \<open>face.get\<close> raise; the \<open>except\<close> of the loop body goes on to the next item, as
  it does when the crop raises. A face whose crop is not empty is appended whatever
  \<open>extract_face_features\<close> returned.
\<close>

fun process_faces ::
  "services \<Rightarrow> frame \<Rightarrow> json list \<Rightarrow> call list \<times> face_data list \<Rightarrow> call list \<times> face_data list" where
  "process_faces sv frame [] acc = acc"
| "process_faces sv frame (face # faces) (cs, processed_faces) =
     (case face of
        JObj face_dict \<Rightarrow>
          (let box = dict_get face_dict ''bbox'' (JObj [])
           in case crop_region sv frame box of
                None \<Rightarrow> process_faces sv frame faces (cs, processed_faces)
              | Some cropped \<Rightarrow>
                  if length cropped > 0 then
                    (let feats = extract_face_features sv cropped
                     in process_faces sv frame faces
                          (cs @ [ExtractFeatures cropped],
                           processed_faces @
                             [\<lparr>bbox = box,
                               confidence = dict_get face_dict ''confidence'' (JNum 0),
                               features = feats,
                               face_region = cropped\<rparr>]))
                  else process_faces sv frame faces (cs, processed_faces))
      | _ \<Rightarrow> process_faces sv frame faces (cs, processed_faces))"

text \<open>
  \<open>process_frame_for_faces\<close>: the calls made, and the list of faces, or the
  \<open>TypeError\<close> of a \<open>for\<close> over an object that is not iterable.
\<close>

definition process_frame_for_faces ::
  "services \<Rightarrow> frame \<Rightarrow> call list \<times> (py_error + face_data list)" where
  "process_frame_for_faces sv frame =
     (let faces = detect_faces_in_image sv frame
      in case py_iter faces of
           None \<Rightarrow> ([DetectFaces frame], Inl TypeError)
         | Some items \<Rightarrow>
             (let (cs, processed_faces) = process_faces sv frame items ([DetectFaces frame], [])
              in (cs, Inr processed_faces)))"

section \<open>app.py: the analysis of a submitted frame\<close>

text \<open>The columns of the three tables that the analysis reads or writes.\<close>

record Student =
  student_pk :: int
  name :: string
  face_encoding :: "string option"
  student_is_active :: bool

record EntryLog =
  log_student_id :: "int option"
  is_recognized :: bool
  confidence_score :: "real option"
  entry_time :: string

record SystemAlert =
  alert_alert_type :: string
  alert_message :: string
  alert_severity :: string

text \<open>
  The number that a comparison with \<open>>\<close> reads from an object: a number is itself,
  \<open>True\<close> and \<open>False\<close> are 1 and 0, and any other object raises \<open>TypeError\<close>.
\<close>

fun as_number :: "json \<Rightarrow> real option" where
  "as_number (JNum r) = Some r"
| "as_number (JBool b) = Some (if b then 1 else 0)"
| "as_number _ = None"

text \<open>
  The inner loop of \<open>analyze_frame\<close> over the active students, with the running
  \<open>matched_student\<close> and \<open>best_match_score\<close>, and the calls made so far.
\<close>

fun match_students ::
  "services \<Rightarrow> json \<Rightarrow> Student list \<Rightarrow> Student option \<Rightarrow> real \<Rightarrow> call list
     \<Rightarrow> call list \<times> (py_error + Student option \<times> real)" where
  "match_students sv feats [] matched_student best_match_score cs =
     (cs, Inr (matched_student, best_match_score))"
| "match_students sv feats (student # rest) matched_student best_match_score cs =
     (case face_encoding student of
        None \<Rightarrow> match_students sv feats rest matched_student best_match_score cs
      | Some enc \<Rightarrow>
          if enc = [] then match_students sv feats rest matched_student best_match_score cs
          else
            (case json_loads sv enc of
               None \<Rightarrow> (cs, Inl JSONDecodeError)
             | Some stored_features \<Rightarrow>
                 (case as_number (compare_faces sv feats stored_features) of
                    None \<Rightarrow> (cs @ [CompareFaces feats stored_features], Inl TypeError)
                  | Some similarity \<Rightarrow>
                      if similarity > best_match_score \<and> similarity > 0.75
                      then match_students sv feats rest (Some student) similarity
                             (cs @ [CompareFaces feats stored_features])
                      else match_students sv feats rest matched_student best_match_score
                             (cs @ [CompareFaces feats stored_features]))))"

text \<open>
  What one request has done so far: the rows added to the database session and not yet
  committed, the \<open>results\<close> list, the alarm object and the calls made.
\<close>

record session =
  pending_logs :: "EntryLog list"
  pending_alerts :: "SystemAlert list"
  results :: "json list"
  alarm :: AlarmSystem
  calls :: "call list"

text \<open>
  The body of the loop over \<open>detected_faces\<close>. \<open>current_time\<close> is the text of
  \<open>datetime.utcnow()\<close>, read once for the request; \<open>t\<close> and \<open>now\<close> are the clock
  readings of \<open>trigger_alarm\<close>. An exception leaves the loop with the session as it
  was, but for the calls made.
\<close>

definition analyze_face ::
  "services \<Rightarrow> Student list \<Rightarrow> string \<Rightarrow> real \<Rightarrow> string \<Rightarrow> face_data \<Rightarrow> session
     \<Rightarrow> py_error option \<times> session" where
  "analyze_face sv students current_time t now fd ss =
     (case (if truthy (features fd)
            then match_students sv (features fd) (filter student_is_active students)
                   None 0 (calls ss)
            else (calls ss, Inr (None, 0))) of
        (cs, Inl e) \<Rightarrow> (Some e, ss\<lparr>calls := cs\<rparr>)
      | (cs, Inr (matched_student, best_match_score)) \<Rightarrow>
          (let entry_log =
                 \<lparr>log_student_id = map_option student_pk matched_student,
                  is_recognized = (matched_student \<noteq> None),
                  confidence_score =
                    (if best_match_score > 0 then Some best_match_score else None),
                  entry_time = current_time\<rparr>;
               ss1 = ss\<lparr>calls := cs, pending_logs := pending_logs ss @ [entry_log]\<rparr>
           in case matched_student of
                Some student \<Rightarrow>
                  (None,
                   ss1\<lparr>results := results ss1 @
                          [JObj [(''recognized'', JBool True),
                                 (''name'', JStr (name student)),
                                 (''confidence'', JNum best_match_score)]]\<rparr>)
              | None \<Rightarrow>
                  (let message = ''Unknown person detected at '' @ current_time;
                       alert = \<lparr>alert_alert_type = ''unknown_person'',
                                alert_message = message,
                                alert_severity = ''high''\<rparr>
                   in (None,
                       ss1\<lparr>pending_alerts := pending_alerts ss1 @ [alert],
                           alarm := trigger_alarm t now ''unknown_person'' message ''high''
                                      (alarm ss1),
                           results := results ss1 @
                             [JObj [(''recognized'', JBool False),
                                    (''name'', JStr ''Unknown'')]]\<rparr>))))"

fun analyze_faces ::
  "services \<Rightarrow> Student list \<Rightarrow> string \<Rightarrow> real \<Rightarrow> string \<Rightarrow> face_data list \<Rightarrow> session
     \<Rightarrow> py_error option \<times> session" where
  "analyze_faces sv students current_time t now [] ss = (None, ss)"
| "analyze_faces sv students current_time t now (fd # fds) ss =
     (case analyze_face sv students current_time t now fd ss of
        (Some e, ss') \<Rightarrow> (Some e, ss')
      | (None, ss') \<Rightarrow> analyze_faces sv students current_time t now fds ss')"

text \<open>
  The process: the flag \<open>monitoring_active\<close>, the committed tables, the alarm object
  and every call made to the outside. The database is taken to be reliable (a commit
  succeeds).
\<close>

record world =
  monitoring_active :: bool
  students :: "Student list"
  entry_logs :: "EntryLog list"
  system_alerts :: "SystemAlert list"
  alarm_system :: AlarmSystem
  made_calls :: "call list"

definition error_response :: "string \<Rightarrow> json" where
  "error_response msg = JObj [(''status'', JStr ''error''), (''message'', JStr msg)]"

text \<open>Python's \<open>x in s\<close> for two strings: \<open>x\<close> occurs in \<open>s\<close>.\<close>

definition str_contains :: "string \<Rightarrow> string \<Rightarrow> bool" where
  "str_contains s x = list_ex (\<lambda>i. take (length x) (drop i s) = x) [0..<Suc (length s)]"

text \<open>
  The test \<open>not data or 'frame' not in data\<close> and the read \<open>data['frame']\<close> on the body
  of the request: the frame field of a dictionary that has one, \<open>Inl None\<close> for the
  answer "No frame data received", and \<open>Inl (Some TypeError)\<close> where the test or the
  read raises on an object that is not a dictionary.
\<close>

fun frame_field :: "json \<Rightarrow> py_error option + json" where
  "frame_field (JObj d) =
     (case map_of d ''frame'' of None \<Rightarrow> Inl None | Some v \<Rightarrow> Inr v)"
| "frame_field (JArr xs) =
     (if JStr ''frame'' \<in> set xs then Inl (Some TypeError) else Inl None)"
| "frame_field (JStr s) =
     (if str_contains s ''frame'' then Inl (Some TypeError) else Inl None)"
| "frame_field (JNum r) = (if r = 0 then Inl None else Inl (Some TypeError))"
| "frame_field (JBool b) = (if b then Inl (Some TypeError) else Inl None)"
| "frame_field JNull = Inl None"

text \<open>
  \<open>analyze_frame\<close>: the answer sent back and the process afterwards. Where an
  exception reaches the \<open>except\<close> of the route, the database session is rolled back:
  the tables keep their rows, while the alarm keeps what \<open>trigger_alarm\<close> did to it.
\<close>

definition analyze_frame ::
  "services \<Rightarrow> json \<Rightarrow> string \<Rightarrow> real \<Rightarrow> string \<Rightarrow> world \<Rightarrow> json \<times> world" where
  "analyze_frame sv data current_time t now w =
     (if \<not> monitoring_active w then
        (JObj [(''status'', JStr ''skipped''), (''message'', JStr ''Monitoring not active'')], w)
      else
        (case frame_field data of
           Inl None \<Rightarrow> (error_response ''No frame data received'', w)
         | Inl (Some e) \<Rightarrow> (error_response (str_exc sv e), w)
         | Inr frame_b64 \<Rightarrow>
             (let w1 = w\<lparr>made_calls := made_calls w @ [DecodeFrame frame_b64]\<rparr>
              in case decode_frame sv frame_b64 of
                   Inl e \<Rightarrow> (error_response (str_exc sv e), w1)
                 | Inr None \<Rightarrow> (error_response ''Could not decode frame'', w1)
                 | Inr (Some frame) \<Rightarrow>
                     if length frame = 0 then (error_response ''Could not decode frame'', w1)
                     else
                       (case process_frame_for_faces sv frame of
                          (cs, Inl e) \<Rightarrow>
                            (error_response (str_exc sv e),
                             w1\<lparr>made_calls := made_calls w1 @ cs\<rparr>)
                        | (cs, Inr detected_faces) \<Rightarrow>
                            (case analyze_faces sv (students w) current_time t now detected_faces
                                    \<lparr>pending_logs = [], pending_alerts = [], results = [],
                                     alarm = alarm_system w, calls = made_calls w1 @ cs\<rparr> of
                               (Some e, ss) \<Rightarrow>
                                 (error_response (str_exc sv e),
                                  w\<lparr>alarm_system := alarm ss, made_calls := calls ss\<rparr>)
                             | (None, ss) \<Rightarrow>
                                 (JObj [(''status'', JStr ''success''),
                                        (''faces_detected'', JNum (real (length detected_faces))),
                                        (''results'', JArr (results ss))],
                                  w\<lparr>entry_logs := entry_logs w @ pending_logs ss,
                                    system_alerts := system_alerts w @ pending_alerts ss,
                                    alarm_system := alarm ss,
                                    made_calls := calls ss\<rparr>))))))"

section \<open>Vocabulary of the properties\<close>

text \<open>The dictionary that \<open>_log_alarm\<close> writes for one trigger event.\<close>

definition alarm_entry :: "string \<Rightarrow> string \<Rightarrow> string \<Rightarrow> string \<Rightarrow> json" where
  "alarm_entry now alert_type message severity =
     JObj [(''timestamp'', JStr now), (''alert_type'', JStr alert_type),
           (''message'', JStr message), (''severity'', JStr severity),
           (''status'', JStr ''activated'')]"

text \<open>
  The sequence of events that a log file stands for: none when there is no file or no
  readable one, the list when it holds one. A file holding another JSON value stands
  for no sequence.
\<close>

fun stored_entries :: "log_file \<Rightarrow> json list option" where
  "stored_entries NoFile = Some []"
| "stored_entries Unparseable = Some []"
| "stored_entries (Stored (JArr logs)) = Some logs"
| "stored_entries (Stored _) = None"


text \<open>An enrolled student has a stored descriptor: \<open>face_encoding\<close> is neither null nor empty.\<close>

definition has_descriptor :: "Student \<Rightarrow> bool" where
  "has_descriptor student =
     (case face_encoding student of None \<Rightarrow> False | Some enc \<Rightarrow> enc \<noteq> [])"

text \<open>
  The similarities that the comparison gives for one face, in the order of the
  students: one for each student whose stored descriptor is read and compared.
\<close>

fun similarities :: "services \<Rightarrow> json \<Rightarrow> Student list \<Rightarrow> (Student \<times> real) list" where
  "similarities sv feats [] = []"
| "similarities sv feats (student # rest) =
     (case face_encoding student of
        None \<Rightarrow> similarities sv feats rest
      | Some enc \<Rightarrow>
          if enc = [] then similarities sv feats rest
          else
            (case json_loads sv enc of
               None \<Rightarrow> similarities sv feats rest
             | Some stored_features \<Rightarrow>
                 (case as_number (compare_faces sv feats stored_features) of
                    None \<Rightarrow> similarities sv feats rest
                  | Some similarity \<Rightarrow> (student, similarity) # similarities sv feats rest)))"

text \<open>The record of an unmatched face in the answer.\<close>

definition unknown_record :: json where
  "unknown_record = JObj [(''recognized'', JBool False), (''name'', JStr ''Unknown'')]"

text \<open>
  What an unmatched face adds to the session: a row of the entry log with no student
  and no confidence, an alert of high severity, a call of \<open>trigger_alarm\<close>, and the
  record of an unknown person.
\<close>

definition unmatched_outcome :: "string \<Rightarrow> real \<Rightarrow> string \<Rightarrow> session \<Rightarrow> session" where
  "unmatched_outcome current_time t now ss =
     ss\<lparr>pending_logs := pending_logs ss @
           [\<lparr>log_student_id = None, is_recognized = False, confidence_score = None,
             entry_time = current_time\<rparr>],
        pending_alerts := pending_alerts ss @
           [\<lparr>alert_alert_type = ''unknown_person'',
             alert_message = ''Unknown person detected at '' @ current_time,
             alert_severity = ''high''\<rparr>],
        alarm := trigger_alarm t now ''unknown_person''
                   (''Unknown person detected at '' @ current_time) ''high'' (alarm ss),
        results := results ss @ [unknown_record]\<rparr>"

text \<open>The two shapes of a per-face record in the answer.\<close>

definition face_record :: "json \<Rightarrow> bool" where
  "face_record r \<longleftrightarrow>
     (\<exists>n c. r = JObj [(''recognized'', JBool True), (''name'', JStr n), (''confidence'', JNum c)])
     \<or> r = unknown_record"

text \<open>
  The text of a response has a brace-delimited part when its first \<open>{\<close> comes before
  its last \<open>}\<close>; \<open>json_substring\<close> is that part.
\<close>

definition brace_delimited :: "string \<Rightarrow> bool" where
  "brace_delimited content \<longleftrightarrow>
     0 \<le> py_find CHR ''{'' content \<and> py_find CHR ''{'' content < py_rfind CHR ''}'' content + 1"

definition json_substring :: "string \<Rightarrow> string" where
  "json_substring content =
     py_slice content (py_find CHR ''{'' content) (py_rfind CHR ''}'' content + 1)"

text \<open>The descriptor that \<open>extract_face_features\<close> makes of a text that is not JSON.\<close>

definition fallback_descriptor :: "services \<Rightarrow> string \<Rightarrow> json" where
  "fallback_descriptor sv content =
     JObj [(''feature_vector'', JStr content), (''key_features'', JArr []),
           (''face_hash'', JStr (hash_text sv content))]"

section \<open>A small classroom\<close>

text \<open>
  Concrete data on which the model runs: JSON texts as the vision service would send
  them, a reader of exactly these texts in the place of \<open>json.loads\<close> (it rejects every
  other text, as \<open>json.loads\<close> rejects \<open>{oops}\<close>), a network that answers each request,
  and five students. The text \<open>anBn\<close> stands for the base64 of a one-pixel JPEG, and the
  bounding box of width 1 and height 1 crops the whole frame.
\<close>

definition quoted :: "string \<Rightarrow> string" where
  "quoted s = [CHR 0x22] @ s @ [CHR 0x22]"

definition whole_box :: json where
  "whole_box = JObj [(''width'', JNum 1), (''height'', JNum 1)]"

definition detect_text :: string where
  "detect_text = ''{'' @ quoted ''faces'' @ '': [{'' @ quoted ''bbox'' @ '': {''
       @ quoted ''width'' @ '': 1, '' @ quoted ''height'' @ '': 1}}]}''"

definition features_text :: "string \<Rightarrow> string" where
  "features_text v = ''{'' @ quoted ''feature_vector'' @ '': '' @ quoted v @ ''}''"

definition features_json :: "string \<Rightarrow> json" where
  "features_json v = JObj [(''feature_vector'', JStr v)]"

definition score_text :: "string \<Rightarrow> string" where
  "score_text d = ''{'' @ quoted ''similarity_score'' @ '': '' @ d @ ''}''"

definition demo_loads :: "string \<Rightarrow> json option" where
  "demo_loads = map_of
     [(detect_text, JObj [(''faces'', JArr [JObj [(''bbox'', whole_box)]])]),
      (features_text ''live'', features_json ''live''),
      (features_text ''a'', features_json ''a''),
      (features_text ''b'', features_json ''b''),
      (features_text ''c'', features_json ''c''),
      (score_text ''0.75'', JObj [(''similarity_score'', JNum 0.75)]),
      (score_text ''0.9'', JObj [(''similarity_score'', JNum 0.9)])]"

definition demo_compare :: "json \<Rightarrow> json \<Rightarrow> http" where
  "demo_compare f1 f2 =
     (if f2 = features_json ''a'' then Response 200 (Some (score_text ''0.75''))
      else if f2 = features_json ''b'' \<or> f2 = features_json ''c''
      then Response 200 (Some (''The faces match. '' @ score_text ''0.9''))
      else RequestFailed)"

definition demo_services :: services where
  "demo_services =
     \<lparr>encode_image = (\<lambda>img. Some ''aW1n''),
      post_detect = (\<lambda>img. Response 200 (Some detect_text)),
      post_extract = (\<lambda>img. Response 200 (Some (features_text ''live''))),
      post_compare = demo_compare,
      json_loads = demo_loads,
      crop_region = (\<lambda>frame box. if box = whole_box then Some frame else Some []),
      decode_frame = (\<lambda>v. case v of
                             JStr s \<Rightarrow> if s = ''anBn'' then Inr (Some [0, 0, 0]) else Inr None
                           | _ \<Rightarrow> Inl TypeError),
      hash_text = (\<lambda>s. ''0''),
      str_exc = (\<lambda>e. ''error'')\<rparr>"

text \<open>The same world with the feature extraction out of reach.\<close>

definition offline_extraction :: services where
  "offline_extraction = demo_services\<lparr>post_extract := \<lambda>_. RequestFailed\<rparr>"

text \<open>The same world with a feature extraction that answers \<open>{oops}\<close>.\<close>

definition garbled_extraction :: services where
  "garbled_extraction = demo_services\<lparr>post_extract := \<lambda>_. Response 200 (Some ''{oops}'')\<rparr>"

definition student :: "int \<Rightarrow> string \<Rightarrow> string option \<Rightarrow> Student" where
  "student k n enc = \<lparr>student_pk = k, name = n, face_encoding = enc, student_is_active = True\<rparr>"

definition alice :: Student where "alice = student 1 ''Alice'' (Some (features_text ''a''))"

definition bob :: Student where "bob = student 2 ''Bob'' (Some (features_text ''b''))"

definition carol :: Student where "carol = student 3 ''Carol'' (Some (features_text ''c''))"

definition dave :: Student where "dave = student 4 ''Dave'' None"

definition erin :: Student where "erin = student 5 ''Erin'' (Some [])"

definition demo_world :: "Student list \<Rightarrow> world" where
  "demo_world studs =
     \<lparr>monitoring_active = True, students = studs, entry_logs = [], system_alerts = [],
      alarm_system = init_alarm, made_calls = []\<rparr>"

definition demo_request :: json where
  "demo_request = JObj [(''frame'', JStr ''anBn'')]"

definition demo_face :: face_data where
  "demo_face = \<lparr>bbox = whole_box, confidence = JNum 0, features = features_json ''live'',
                 face_region = [0, 0, 0]\<rparr>"

definition empty_session :: session where
  "empty_session = \<lparr>pending_logs = [], pending_alerts = [], results = [], alarm = init_alarm,
                     calls = []\<rparr>"

text \<open>
  Two alarms of high severity, and a run in which the first is stopped and the second
  triggered before the loop of the first has tested its condition again: the first
  thread tests at 0, 2, ..., 50, the alarm is stopped, the second alarm is triggered at
  51, and both threads go on testing every two seconds.
\<close>

definition first_alarm :: alarm_thread where
  "first_alarm = \<lparr>thread_alert_type = ''unknown_person'', thread_message = ''first'',
                   thread_severity = ''high'', start_time = 0\<rparr>"

definition second_alarm :: alarm_thread where
  "second_alarm = \<lparr>thread_alert_type = ''unknown_person'', thread_message = ''second'',
                    thread_severity = ''high'', start_time = 51\<rparr>"

definition stale_loop_run :: "alarm_event list" where
  "stale_loop_run =
     Trigger 0 ''10:00:00'' ''unknown_person'' ''first'' ''high''
     # map (LoopTest first_alarm)
         [0, 2, 4, 6, 8, 10, 12, 14, 16, 18, 20, 22, 24, 26, 28, 30, 32, 34, 36, 38, 40, 42,
          44, 46, 48, 50]
     @ [Stop,
        Trigger 51 ''10:00:51'' ''unknown_person'' ''second'' ''high'',
        LoopTest second_alarm 51, LoopTest first_alarm 52,
        LoopTest second_alarm 53, LoopTest first_alarm 54,
        LoopTest second_alarm 55, LoopTest first_alarm 56,
        LoopTest second_alarm 57, LoopTest first_alarm 58,
        LoopTest second_alarm 59]"


lemmas demo_defs = quoted_def whole_box_def detect_text_def features_text_def features_json_def
  score_text_def demo_loads_def demo_compare_def demo_services_def offline_extraction_def
  garbled_extraction_def
  student_def alice_def bob_def carol_def dave_def erin_def demo_world_def demo_request_def
  demo_face_def empty_session_def

lemmas model_defs = analyze_frame_def analyze_face_def process_frame_for_faces_def
  detect_faces_in_image_def extract_face_features_def compare_faces_def
  py_find_def py_rfind_def py_slice_def dict_get_def error_response_def
  trigger_alarm_def log_alarm_def init_alarm_def Let_def

section \<open>The alarm\<close>

subsection \<open>The log keeps the last 1000 events\<close>

lemma log_alarm_stored:
  assumes "stored_entries f = Some logs"
  shows "log_alarm now a m sev f =
           Stored (JArr (drop (length logs + 1 - 1000) (logs @ [alarm_entry now a m sev])))"
  using assms
  by (cases f rule: stored_entries.cases) (simp_all add: log_alarm_def alarm_entry_def)

text \<open>
  Claim C9. Every append of a trigger event to the persisted alarm log keeps the cap:
  whatever sequence the file held, the file afterwards holds that sequence with the new
  event at its end, cut down to its last 1000 entries (the oldest go first, the order
  stays), so at most 1000 entries; the new entry records timestamp, alert type, message
  and severity.
\<close>

theorem log_alarm_keeps_last_1000:
  "stored_entries f = Some logs \<longrightarrow>
     (\<exists>kept. log_alarm now alert_type message severity f = Stored (JArr kept)
        \<and> kept = drop (length logs + 1 - 1000) (logs @ [alarm_entry now alert_type message severity])
        \<and> length kept = min 1000 (length logs + 1) \<and> length kept \<le> 1000
        \<and> last kept = alarm_entry now alert_type message severity
        \<and> alarm_entry now alert_type message severity =
            JObj [(''timestamp'', JStr now), (''alert_type'', JStr alert_type),
                  (''message'', JStr message), (''severity'', JStr severity),
                  (''status'', JStr ''activated'')])"
proof
  assume a: "stored_entries f = Some logs"
  show "\<exists>kept. log_alarm now alert_type message severity f = Stored (JArr kept)
        \<and> kept = drop (length logs + 1 - 1000) (logs @ [alarm_entry now alert_type message severity])
        \<and> length kept = min 1000 (length logs + 1) \<and> length kept \<le> 1000
        \<and> last kept = alarm_entry now alert_type message severity
        \<and> alarm_entry now alert_type message severity =
            JObj [(''timestamp'', JStr now), (''alert_type'', JStr alert_type),
                  (''message'', JStr message), (''severity'', JStr severity),
                  (''status'', JStr ''activated'')]"
    using log_alarm_stored [OF a, of now alert_type message severity]
    by (auto simp: min_def alarm_entry_def)
qed

theorem log_alarm_keeps_last_1000_witness:
  "stored_entries (Stored (JArr (replicate 1000 JNull))) = Some (replicate 1000 JNull)
   \<and> (\<exists>kept. log_alarm ''10:00'' ''unknown_person'' ''m'' ''high''
                (Stored (JArr (replicate 1000 JNull))) = Stored (JArr kept)
         \<and> length kept = 1000
         \<and> last kept = alarm_entry ''10:00'' ''unknown_person'' ''m'' ''high'')"
proof -
  have h: "stored_entries (Stored (JArr (replicate 1000 JNull))) = Some (replicate 1000 JNull)"
    by simp
  from log_alarm_keeps_last_1000 [of "Stored (JArr (replicate 1000 JNull))" "replicate 1000 JNull"
      "''10:00''" "''unknown_person''" "''m''" "''high''"] h
  show ?thesis by auto
qed

subsection \<open>A trigger on an active alarm\<close>






subsection \<open>The alarm times out\<close>

lemma get_alarm_duration_values:
  "get_alarm_duration ''high'' = 60"
  "get_alarm_duration ''medium'' = 30"
  "get_alarm_duration ''low'' = 15"
  "severity \<notin> {''high'', ''medium'', ''low''} \<Longrightarrow> get_alarm_duration severity = 30"
  by (simp_all add: get_alarm_duration_def)

text \<open>
  A thread that finds the flag set leaves its loop only when the time since its own
  start has reached the duration of its own severity.
\<close>

lemma alarm_loop_test_leaves:
  assumes "alarm_loop_test th t s = (False, s')" and "is_active s"
  shows "get_alarm_duration (thread_severity th) \<le> t - start_time th
       \<and> s' = s\<lparr>is_active := False\<rparr>"
  using assms by (auto simp: alarm_loop_test_def Let_def split: if_splits)

text \<open>
  With one thread in its loop and no other event, the tests that find less than the
  duration change nothing, and the first test that finds the duration reached makes the
  alarm idle.
\<close>

lemma lone_loop_goes_round:
  assumes "is_active (alarm_object p)" and "th \<in> set (looping p)"
    and "\<forall>u\<in>set ts. u - start_time th < get_alarm_duration (thread_severity th)"
  shows "alarm_run (map (LoopTest th) ts) p = p"
  using assms
  by (induction ts) (simp_all add: alarm_run_def alarm_step_def alarm_loop_test_def)

lemma lone_loop_times_out:
  assumes "is_active (alarm_object p)" and "th \<in> set (looping p)"
    and "\<forall>u\<in>set ts. u - start_time th < get_alarm_duration (thread_severity th)"
    and "get_alarm_duration (thread_severity th) \<le> t - start_time th"
  shows "alarm_run (map (LoopTest th) (ts @ [t])) p =
           p\<lparr>alarm_object := (alarm_object p)\<lparr>is_active := False\<rparr>,
             looping := remove1 th (looping p)\<rparr>"
proof -
  have "alarm_run (map (LoopTest th) (ts @ [t])) p =
          alarm_step (LoopTest th t) (alarm_run (map (LoopTest th) ts) p)"
    by (simp add: alarm_run_def)
  also have "\<dots> = alarm_step (LoopTest th t) p"
    using lone_loop_goes_round [OF assms(1-3)] by simp
  also have "\<dots> = p\<lparr>alarm_object := (alarm_object p)\<lparr>is_active := False\<rparr>,
             looping := remove1 th (looping p)\<rparr>"
    using assms(2,4) by (simp add: alarm_step_def alarm_loop_test_def)
  finally show ?thesis .
qed

lemma stale_loop_run_state:
  "alarm_run stale_loop_run init_process =
     \<lparr>alarm_object =
        \<lparr>is_active = True, alarm_thread = Some second_alarm,
         threads = [second_alarm, first_alarm],
         log_file = Stored (JArr
           [alarm_entry ''10:00:00'' ''unknown_person'' ''first'' ''high'',
            alarm_entry ''10:00:51'' ''unknown_person'' ''second'' ''high''])\<rparr>,
      looping = [first_alarm, second_alarm]\<rparr>"
  by (simp add: stale_loop_run_def alarm_run_def alarm_step_def alarm_loop_test_def
        init_process_def init_alarm_def trigger_alarm_def stop_alarm_def log_alarm_def
        alarm_entry_def get_alarm_duration_def first_alarm_def second_alarm_def Let_def)

text \<open>
  Claim C5. Without an explicit stop of it, an active alarm is to go idle when, and
  never before, the time since its start reaches the duration of its severity: 60
  seconds for "high", 30 for "medium", 15 for "low", 30 for any other. The durations are
  those, and the loop of an alarm measures them from its own start. But
  \<open>stop_alarm\<close> leaves the loop of the stopped alarm running until its next test; a
  trigger that comes before that test sets the flag again, the old loop goes on, and
  when its own 60 seconds are over it writes \<open>is_active = False\<close>. In the run below the
  second alarm starts at 51, nothing stops it, and it is idle at 60, nine seconds old;
  its own thread then leaves its loop at its next test.
\<close>

theorem stale_loop_ends_new_alarm_early:
  "get_alarm_duration ''high'' = 60 \<and> get_alarm_duration ''medium'' = 30
   \<and> get_alarm_duration ''low'' = 15 \<and> get_alarm_duration ''critical'' = 30
   \<and> is_active (alarm_object (alarm_run stale_loop_run init_process))
   \<and> alarm_thread (alarm_object (alarm_run stale_loop_run init_process)) = Some second_alarm
   \<and> looping (alarm_run stale_loop_run init_process) = [first_alarm, second_alarm]
   \<and> alarm_run (stale_loop_run @ [LoopTest first_alarm 60]) init_process =
       (alarm_run stale_loop_run init_process)
         \<lparr>alarm_object := (alarm_object (alarm_run stale_loop_run init_process))
                             \<lparr>is_active := False\<rparr>,
           looping := [second_alarm]\<rparr>
   \<and> 60 - start_time second_alarm = 9
   \<and> 60 - start_time second_alarm < get_alarm_duration (thread_severity second_alarm)
   \<and> looping (alarm_run (stale_loop_run @ [LoopTest first_alarm 60, LoopTest second_alarm 61])
                init_process) = []"
proof -
  have step: "alarm_run (stale_loop_run @ evs) init_process =
      alarm_run evs (alarm_run stale_loop_run init_process)" for evs
    by (simp add: alarm_run_def)
  have ne: "first_alarm \<noteq> second_alarm" by (simp add: first_alarm_def second_alarm_def)
  show ?thesis
    unfolding step stale_loop_run_state using ne
    by (simp add: alarm_run_def alarm_step_def alarm_loop_test_def get_alarm_duration_def
          first_alarm_def second_alarm_def)
qed

section \<open>The capture loop\<close>











section \<open>The recognition pipeline\<close>

subsection \<open>The loop over the students\<close>

lemma match_students_general:
  assumes "match_students sv feats studs m b cs = (cs', Inr (m', b'))"
    and "thr = max b 0.75"
  shows "if \<forall>p\<in>set (similarities sv feats studs). snd p \<le> thr
         then m' = m \<and> b' = b
         else b' = Max (snd ` set (similarities sv feats studs)) \<and> thr < b'
              \<and> (\<exists>st. m' = Some st
                     \<and> find (\<lambda>p. snd p = b') (similarities sv feats studs) = Some (st, b'))"
  using assms
proof (induction studs arbitrary: m b cs thr)
  case Nil
  then show ?case by simp
next
  case (Cons student rest)
  let ?S = "similarities sv feats rest"
  show ?case
  proof (cases "has_descriptor student")
    case False
    then have skip: "match_students sv feats (student # rest) m b cs = match_students sv feats rest m b cs"
      "similarities sv feats (student # rest) = ?S"
      by (auto simp: has_descriptor_def split: option.splits)
    have rec: "match_students sv feats rest m b cs = (cs', Inr (m', b'))"
      using Cons.prems(1) unfolding skip(1) .
    from Cons.IH [OF rec Cons.prems(2)] show ?thesis unfolding skip(2) .
  next
    case True
    then obtain enc where enc: "face_encoding student = Some enc" "enc \<noteq> []"
      by (auto simp: has_descriptor_def split: option.splits)
    from Cons.prems(1) enc obtain stored where stored: "json_loads sv enc = Some stored"
      by (auto split: option.splits)
    from Cons.prems(1) enc stored obtain x where x: "as_number (compare_faces sv feats stored) = Some x"
      by (auto split: option.splits)
    have sims: "similarities sv feats (student # rest) = (student, x) # ?S"
      using enc stored x by simp
    show ?thesis
    proof (cases "x > b \<and> x > 0.75")
      case True
      then have gt: "thr < x" using Cons.prems(2) by simp
      from True Cons.prems(1) enc stored x
      have rec: "match_students sv feats rest (Some student) x (cs @ [CompareFaces feats stored]) = (cs', Inr (m', b'))"
        by simp
      have thr': "x = max x 0.75" using True by simp
      note IH = Cons.IH [OF rec thr']
      show ?thesis
      proof (cases "\<forall>p\<in>set ?S. snd p \<le> x")
        case True
        with IH have res: "m' = Some student" "b' = x" by simp_all
        have "Max (snd ` set ((student, x) # ?S)) = x"
          using True by (intro Max_eqI) auto
        with res gt show ?thesis unfolding sims by simp
      next
        case False
        with IH obtain st where res: "b' = Max (snd ` set ?S)" "x < b'" "m' = Some st"
          "find (\<lambda>p. snd p = b') ?S = Some (st, b')" by auto
        from False have ne: "?S \<noteq> []" by auto
        have "Max (snd ` set ((student, x) # ?S)) = max x (Max (snd ` set ?S))"
          using ne by simp
        with res have "Max (snd ` set ((student, x) # ?S)) = b'" by simp
        with res gt show ?thesis unfolding sims by auto
      qed
    next
      case False
      then have le: "x \<le> thr" using Cons.prems(2) by auto
      from False Cons.prems(1) enc stored x
      have rec: "match_students sv feats rest m b (cs @ [CompareFaces feats stored]) = (cs', Inr (m', b'))"
        by auto
      note IH = Cons.IH [OF rec Cons.prems(2)]
      show ?thesis
      proof (cases "\<forall>p\<in>set ?S. snd p \<le> thr")
        case True
        with IH le show ?thesis unfolding sims by simp
      next
        case False
        with IH obtain st where res: "b' = Max (snd ` set ?S)" "thr < b'" "m' = Some st"
          "find (\<lambda>p. snd p = b') ?S = Some (st, b')" by auto
        from False have ne: "?S \<noteq> []" by auto
        have "Max (snd ` set ((student, x) # ?S)) = max x (Max (snd ` set ?S))"
          using ne by simp
        with res le have "Max (snd ` set ((student, x) # ?S)) = b'" by simp
        moreover from False have "\<not> (\<forall>p\<in>set ((student, x) # ?S). snd p \<le> thr)" by simp
        ultimately show ?thesis using res le unfolding sims by auto
      qed
    qed
  qed
qed

lemma match_students_filter:
  "match_students sv feats studs m b cs =
     match_students sv feats (filter has_descriptor studs) m b cs"
proof (induction studs arbitrary: m b cs)
  case Nil
  show ?case by simp
next
  case (Cons student rest)
  show ?case
  proof (cases "has_descriptor student")
    case False
    then have "match_students sv feats (student # rest) m b cs = match_students sv feats rest m b cs"
      by (auto simp: has_descriptor_def split: option.splits)
    with False Cons.IH show ?thesis by simp
  next
    case True
    then obtain enc where enc: "face_encoding student = Some enc" "enc \<noteq> []"
      by (auto simp: has_descriptor_def split: option.splits)
    from True have f: "filter has_descriptor (student # rest) = student # filter has_descriptor rest"
      by simp
    show ?thesis unfolding f using enc Cons.IH
      by (simp split: option.splits)
  qed
qed

lemma match_students_none_described:
  assumes "\<forall>st\<in>set studs. \<not> has_descriptor st"
  shows "match_students sv feats studs m b cs = (cs, Inr (m, b))"
proof -
  from assms have "filter has_descriptor studs = []" by (simp add: filter_empty_conv)
  then show ?thesis using match_students_filter [of sv feats studs m b cs] by simp
qed

lemma similarities_described:
  "p \<in> set (similarities sv feats studs) \<Longrightarrow> fst p \<in> set studs \<and> has_descriptor (fst p)"
  by (induction studs) (auto simp: has_descriptor_def split: option.splits if_splits)

lemma match_students_calls:
  "\<exists>new. fst (match_students sv feats studs m b cs) = cs @ new
     \<and> (\<forall>c\<in>set new. \<exists>st\<in>set studs. has_descriptor st
            \<and> (\<exists>enc stored. face_encoding st = Some enc \<and> json_loads sv enc = Some stored
                  \<and> c = CompareFaces feats stored))"
proof (induction studs arbitrary: m b cs)
  case Nil
  show ?case by simp
next
  case (Cons student rest)
  show ?case
  proof (cases "has_descriptor student")
    case False
    then have "match_students sv feats (student # rest) m b cs = match_students sv feats rest m b cs"
      by (auto simp: has_descriptor_def split: option.splits)
    with Cons.IH [of m b cs] show ?thesis by auto
  next
    case True
    then obtain enc where enc: "face_encoding student = Some enc" "enc \<noteq> []"
      by (auto simp: has_descriptor_def split: option.splits)
    show ?thesis
    proof (cases "json_loads sv enc")
      case None
      with enc show ?thesis by simp
    next
      case (Some stored)
      let ?c = "CompareFaces feats stored"
      have here: "\<exists>st\<in>set (student # rest). has_descriptor st
            \<and> (\<exists>enc stored. face_encoding st = Some enc \<and> json_loads sv enc = Some stored
                  \<and> ?c = CompareFaces feats stored)"
        using True enc Some by auto
      show ?thesis
      proof (cases "as_number (compare_faces sv feats stored)")
        case None
        with enc Some have "fst (match_students sv feats (student # rest) m b cs) = cs @ [?c]"
          by simp
        with here show ?thesis by auto
      next
        case (Some x)
        obtain m1 b1 where step: "match_students sv feats (student # rest) m b cs =
            match_students sv feats rest m1 b1 (cs @ [?c])"
          using enc \<open>json_loads sv enc = Some stored\<close> Some by (cases "x > b \<and> x > 0.75") auto
        from Cons.IH [of m1 b1 "cs @ [?c]"] obtain new where new:
          "fst (match_students sv feats rest m1 b1 (cs @ [?c])) = (cs @ [?c]) @ new"
          "\<forall>c\<in>set new. \<exists>st\<in>set rest. has_descriptor st
            \<and> (\<exists>enc stored. face_encoding st = Some enc \<and> json_loads sv enc = Some stored
                  \<and> c = CompareFaces feats stored)" by blast
        have "fst (match_students sv feats (student # rest) m b cs) = cs @ (?c # new)"
          using step new(1) by simp
        moreover have "\<forall>c\<in>set (?c # new). \<exists>st\<in>set (student # rest). has_descriptor st
            \<and> (\<exists>enc stored. face_encoding st = Some enc \<and> json_loads sv enc = Some stored
                  \<and> c = CompareFaces feats stored)"
          using here new(2) by auto
        ultimately show ?thesis by blast
      qed
    qed
  qed
qed

lemma analyze_face_no_features:
  assumes "\<not> truthy (features fd)"
  shows "analyze_face sv studs current_time t now fd ss =
           (None, unmatched_outcome current_time t now ss)"
  using assms by (simp add: analyze_face_def unmatched_outcome_def unknown_record_def Let_def)

lemma analyze_face_unmatched:
  assumes "match_students sv (features fd) (filter student_is_active studs) None 0 (calls ss)
             = (cs, Inr (None, b))" and "truthy (features fd)" and "b = 0"
  shows "analyze_face sv studs current_time t now fd ss =
           (None, (unmatched_outcome current_time t now ss)\<lparr>calls := cs\<rparr>)"
  using assms by (simp add: analyze_face_def unmatched_outcome_def unknown_record_def Let_def)

lemma analyze_face_matched:
  assumes "match_students sv (features fd) (filter student_is_active studs) None 0 (calls ss)
             = (cs, Inr (Some st, b))" and "truthy (features fd)"
  shows "analyze_face sv studs current_time t now fd ss =
           (None, ss\<lparr>calls := cs,
                     pending_logs := pending_logs ss @
                        [\<lparr>log_student_id = Some (student_pk st), is_recognized = True,
                          confidence_score = (if b > 0 then Some b else None),
                          entry_time = current_time\<rparr>],
                     results := results ss @
                        [JObj [(''recognized'', JBool True), (''name'', JStr (name st)),
                               (''confidence'', JNum b)]]\<rparr>)"
  using assms by (simp add: analyze_face_def Let_def)

lemma analyze_face_results:
  assumes "analyze_face sv studs current_time t now fd ss = (None, ss')"
  shows "\<exists>r. results ss' = results ss @ [r] \<and> face_record r"
  using assms
  by (auto simp: analyze_face_def Let_def face_record_def unknown_record_def
           split: if_splits prod.splits sum.splits option.splits)

lemma analyze_faces_results:
  assumes "analyze_faces sv studs current_time t now fds ss = (None, ss')"
  shows "\<exists>new. results ss' = results ss @ new \<and> length new = length fds
           \<and> (\<forall>r\<in>set new. face_record r)"
  using assms
proof (induction fds arbitrary: ss)
  case Nil
  then show ?case by simp
next
  case (Cons fd fds)
  from Cons.prems obtain ss1 where
    one: "analyze_face sv studs current_time t now fd ss = (None, ss1)"
    and more: "analyze_faces sv studs current_time t now fds ss1 = (None, ss')"
    by (auto split: prod.splits option.splits)
  from analyze_face_results [OF one] obtain r where
    r: "results ss1 = results ss @ [r]" "face_record r" by blast
  from Cons.IH [OF more] obtain new where
    new: "results ss' = results ss1 @ new" "length new = length fds" "\<forall>r\<in>set new. face_record r"
    by blast
  have "results ss' = results ss @ (r # new) \<and> length (r # new) = length (fd # fds)
           \<and> (\<forall>x\<in>set (r # new). face_record x)"
    using r new by simp
  then show ?case by blast
qed

lemma similarities_no_features:
  "\<not> truthy feats \<Longrightarrow> p \<in> set (similarities sv feats studs) \<Longrightarrow> snd p = 0"
  by (induction studs) (auto simp: compare_faces_def split: option.splits if_splits)

lemma Max_snd_le:
  assumes "sims \<noteq> []" and "\<forall>p\<in>set sims. snd p \<le> (c::real)"
  shows "Max (snd ` set sims) \<le> c"
  using assms by simp

lemma Max_snd_gt:
  assumes "\<not> (\<forall>p\<in>set sims. snd p \<le> (c::real))"
  shows "sims \<noteq> [] \<and> c < Max (snd ` set sims)"
proof -
  from assms obtain p where p: "p \<in> set sims" "c < snd p" by auto
  then have "snd p \<le> Max (snd ` set sims)" by simp
  with p(2) have "c < Max (snd ` set sims)" by (rule less_le_trans)
  moreover from p(1) have "sims \<noteq> []" by auto
  ultimately show ?thesis by simp
qed

lemma analyze_face_cases:
  assumes "analyze_face sv studs current_time t now fd ss = (None, ss')"
  defines "sims \<equiv> similarities sv (features fd) (filter student_is_active studs)"
  shows "(\<not> (sims \<noteq> [] \<and> 0.75 < Max (snd ` set sims))
            \<and> (\<exists>cs. ss' = (unmatched_outcome current_time t now ss)\<lparr>calls := cs\<rparr>))
       \<or> (sims \<noteq> [] \<and> 0.75 < Max (snd ` set sims)
            \<and> (\<exists>st cs. find (\<lambda>p. snd p = Max (snd ` set sims)) sims = Some (st, Max (snd ` set sims))
                  \<and> ss' = ss\<lparr>calls := cs,
                     pending_logs := pending_logs ss @
                        [\<lparr>log_student_id = Some (student_pk st), is_recognized = True,
                          confidence_score =
                            (if Max (snd ` set sims) > 0 then Some (Max (snd ` set sims)) else None),
                          entry_time = current_time\<rparr>],
                     results := results ss @
                        [JObj [(''recognized'', JBool True), (''name'', JStr (name st)),
                               (''confidence'', JNum (Max (snd ` set sims)))]]\<rparr>))"
proof (cases "truthy (features fd)")
  case False
  from analyze_face_no_features [OF False] assms(1)
  have ss': "ss' = unmatched_outcome current_time t now ss" by simp
  then have "ss' = (unmatched_outcome current_time t now ss)\<lparr>calls := calls ss\<rparr>"
    by (simp add: unmatched_outcome_def)
  moreover have "\<not> (sims \<noteq> [] \<and> 0.75 < Max (snd ` set sims))"
  proof
    assume a: "sims \<noteq> [] \<and> 0.75 < Max (snd ` set sims)"
    have "\<forall>p\<in>set sims. snd p \<le> 0.75"
      using similarities_no_features [OF False] unfolding sims_def by fastforce
    with a Max_snd_le [of sims "0.75"] show False by simp
  qed
  ultimately show ?thesis by blast
next
  case True
  obtain cs r where m: "match_students sv (features fd) (filter student_is_active studs)
      None 0 (calls ss) = (cs, r)" by (cases "match_students sv (features fd)
        (filter student_is_active studs) None 0 (calls ss)")
  from assms(1) True m obtain m' b' where r: "r = Inr (m', b')"
    by (cases r) (auto simp: analyze_face_def)
  note m = m [unfolded r]
  have thr: "(0.75::real) = max 0 0.75" by simp
  note G = match_students_general [OF m thr, folded sims_def]
  show ?thesis
  proof (cases "\<forall>p\<in>set sims. snd p \<le> 0.75")
    case all: True
    from G [unfolded if_P [OF all]] have mb: "m' = None" "b' = 0" by simp_all
    from analyze_face_unmatched [OF m [unfolded mb] True refl] assms(1)
    have "ss' = (unmatched_outcome current_time t now ss)\<lparr>calls := cs\<rparr>" by simp
    moreover have "\<not> (sims \<noteq> [] \<and> 0.75 < Max (snd ` set sims))"
      using Max_snd_le [of sims "0.75"] all by auto
    ultimately show ?thesis by blast
  next
    case False
    from G [unfolded if_not_P [OF False]] obtain st where g: "b' = Max (snd ` set sims)"
      "m' = Some st" "find (\<lambda>p. snd p = b') sims = Some (st, b')" by blast
    from analyze_face_matched [OF m [unfolded g(2)] True] assms(1)
    have "ss' = ss\<lparr>calls := cs,
                     pending_logs := pending_logs ss @
                        [\<lparr>log_student_id = Some (student_pk st), is_recognized = True,
                          confidence_score = (if b' > 0 then Some b' else None),
                          entry_time = current_time\<rparr>],
                     results := results ss @
                        [JObj [(''recognized'', JBool True), (''name'', JStr (name st)),
                               (''confidence'', JNum b')]]\<rparr>" by simp
    with g Max_snd_gt [OF False] show ?thesis by blast
  qed
qed

subsection \<open>Match and threshold\<close>

text \<open>
  Claim C1. For every face that the analysis goes through, the recognition outcome is
  a match if and only if the greatest similarity that the comparison returned, over the
  active students compared, is strictly above 0.75 (a greatest similarity of exactly 0.75
  is no match). The student named by a match is the first, in the order of iteration,
  whose similarity is that maximum: a later equal score does not replace it. The
  confidence reported is the maximum.
\<close>

theorem match_iff_best_similarity_exceeds_threshold:
  assumes "analyze_face sv studs current_time t now fd ss = (None, ss')"
  shows "let sims = similarities sv (features fd) (filter student_is_active studs);
             best = Max (snd ` set sims);
             row = last (pending_logs ss')
         in (is_recognized row \<longleftrightarrow> sims \<noteq> [] \<and> 0.75 < best)
          \<and> (is_recognized row \<longrightarrow>
               (\<exists>st. find (\<lambda>p. snd p = best) sims = Some (st, best)
                  \<and> log_student_id row = Some (student_pk st)
                  \<and> last (results ss') =
                      JObj [(''recognized'', JBool True), (''name'', JStr (name st)),
                            (''confidence'', JNum best)]))
          \<and> (\<not> is_recognized row \<longrightarrow>
               log_student_id row = None \<and> last (results ss') = unknown_record)"
  using analyze_face_cases [OF assms]
  unfolding Let_def
  by (elim disjE conjE exE) (simp_all add: unmatched_outcome_def)

lemma demo_similarities:
  "similarities demo_services (features_json ''live'') [alice, bob, carol, dave] =
     [(alice, 0.75), (bob, 0.9), (carol, 0.9)]"
  by (simp add: model_defs demo_defs)

lemma demo_analyze_face:
  "fst (analyze_face demo_services [alice, bob, carol, dave] ''10:00'' 100 ''10:00:00''
     demo_face empty_session) = None"
  by (simp add: model_defs demo_defs demo_face_def empty_session_def)

lemma demo_analyze_face_alice:
  "fst (analyze_face demo_services [alice, dave] ''10:00'' 100 ''10:00:00''
     demo_face empty_session) = None"
  by (simp add: model_defs demo_defs demo_face_def empty_session_def)

theorem match_iff_best_similarity_exceeds_threshold_witness:
  "(let ss' = snd (analyze_face demo_services [alice, bob, carol, dave] ''10:00'' 100 ''10:00:00''
                    demo_face empty_session)
    in fst (analyze_face demo_services [alice, bob, carol, dave] ''10:00'' 100 ''10:00:00''
              demo_face empty_session) = None
       \<and> is_recognized (last (pending_logs ss'))
       \<and> log_student_id (last (pending_logs ss')) = Some 2
       \<and> last (results ss') = JObj [(''recognized'', JBool True), (''name'', JStr ''Bob''),
                                     (''confidence'', JNum 0.9)])
   \<and> (let ss' = snd (analyze_face demo_services [alice, dave] ''10:00'' 100 ''10:00:00''
                    demo_face empty_session)
      in fst (analyze_face demo_services [alice, dave] ''10:00'' 100 ''10:00:00''
              demo_face empty_session) = None
       \<and> similarities demo_services (features demo_face) (filter student_is_active [alice, dave])
            = [(alice, 0.75)]
       \<and> \<not> is_recognized (last (pending_logs ss'))
       \<and> last (results ss') = unknown_record)"
proof -
  let ?run = "analyze_face demo_services [alice, bob, carol, dave] ''10:00'' 100 ''10:00:00''
     demo_face empty_session"
  let ?run1 = "analyze_face demo_services [alice, dave] ''10:00'' 100 ''10:00:00''
     demo_face empty_session"
  have h: "?run = (None, snd ?run)" using demo_analyze_face by (simp add: prod_eq_iff)
  have h1: "?run1 = (None, snd ?run1)" using demo_analyze_face_alice by (simp add: prod_eq_iff)
  have sims: "similarities demo_services (features demo_face)
      (filter student_is_active [alice, bob, carol, dave]) = [(alice, 0.75), (bob, 0.9), (carol, 0.9)]"
    using demo_similarities by (simp add: demo_face_def alice_def bob_def carol_def dave_def student_def)
  have sims1: "similarities demo_services (features demo_face)
      (filter student_is_active [alice, dave]) = [(alice, 0.75)]"
    by (simp add: model_defs demo_defs demo_face_def)
  have pk: "student_pk bob = 2" "name bob = ''Bob''" "alice \<noteq> bob"
    by (simp_all add: alice_def bob_def student_def)
  from match_iff_best_similarity_exceeds_threshold [OF h]
  have a: "is_recognized (last (pending_logs (snd ?run)))
       \<and> log_student_id (last (pending_logs (snd ?run))) = Some 2
       \<and> last (results (snd ?run)) = JObj [(''recognized'', JBool True), (''name'', JStr ''Bob''),
                                     (''confidence'', JNum 0.9)]"
    unfolding sims Let_def using pk by auto
  from match_iff_best_similarity_exceeds_threshold [OF h1]
  have b: "\<not> is_recognized (last (pending_logs (snd ?run1)))
       \<and> last (results (snd ?run1)) = unknown_record"
    unfolding sims1 Let_def by simp
  from a b demo_analyze_face demo_analyze_face_alice sims1 show ?thesis
    unfolding Let_def by blast
qed

subsection \<open>Students without a stored descriptor\<close>

lemma analyze_face_none_described:
  assumes "\<forall>st\<in>set studs. student_is_active st \<longrightarrow> \<not> has_descriptor st"
  shows "analyze_face sv studs current_time t now fd ss =
           (None, unmatched_outcome current_time t now ss)"
proof (cases "truthy (features fd)")
  case False
  then show ?thesis by (rule analyze_face_no_features)
next
  case True
  from assms have "\<forall>st\<in>set (filter student_is_active studs). \<not> has_descriptor st" by simp
  from match_students_none_described [OF this]
  have "match_students sv (features fd) (filter student_is_active studs) None 0 (calls ss)
          = (calls ss, Inr (None, 0))" .
  from analyze_face_unmatched [OF this True refl]
  show ?thesis by (simp add: unmatched_outcome_def)
qed

lemma analyze_faces_none_described:
  assumes "\<forall>st\<in>set studs. student_is_active st \<longrightarrow> \<not> has_descriptor st"
  shows "\<exists>ss'. analyze_faces sv studs current_time t now fds ss = (None, ss')
           \<and> results ss' = results ss @ replicate (length fds) unknown_record
           \<and> calls ss' = calls ss"
proof (induction fds arbitrary: ss)
  case Nil
  show ?case by simp
next
  case (Cons fd fds)
  let ?ss1 = "unmatched_outcome current_time t now ss"
  from Cons.IH [of ?ss1] obtain ss' where
    "analyze_faces sv studs current_time t now fds ?ss1 = (None, ss')"
    "results ss' = results ?ss1 @ replicate (length fds) unknown_record"
    "calls ss' = calls ?ss1" by blast
  then have "analyze_faces sv studs current_time t now (fd # fds) ss = (None, ss')
           \<and> results ss' = results ss @ replicate (length (fd # fds)) unknown_record
           \<and> calls ss' = calls ss"
    using analyze_face_none_described [OF assms]
    by (simp add: unmatched_outcome_def)
  then show ?case by blast
qed

text \<open>
  Claim C10. An active student whose stored descriptor is absent (\<open>face_encoding\<close>
  null or empty) is never passed to the comparison and is never the student of a match:
  the loop over the students runs as if those students were not in the list, each
  comparison it makes is for a student with a descriptor, and a recognised face names
  such a student. If no active student has a descriptor, every detected face is
  unmatched and no comparison is made.
\<close>

theorem undescribed_identity_never_compared:
  "match_students sv feats studs m b cs =
     match_students sv feats (filter has_descriptor studs) m b cs
   \<and> (\<exists>new. fst (match_students sv feats studs m b cs) = cs @ new
        \<and> (\<forall>c\<in>set new. \<exists>st\<in>set studs. has_descriptor st
              \<and> (\<exists>enc stored. face_encoding st = Some enc \<and> json_loads sv enc = Some stored
                    \<and> c = CompareFaces feats stored)))
   \<and> (analyze_face sv studs current_time t now fd ss = (None, ss')
        \<and> is_recognized (last (pending_logs ss')) \<longrightarrow>
        (\<exists>st\<in>set studs. student_is_active st \<and> has_descriptor st
           \<and> log_student_id (last (pending_logs ss')) = Some (student_pk st)
           \<and> (\<exists>c. last (results ss') =
                 JObj [(''recognized'', JBool True), (''name'', JStr (name st)),
                       (''confidence'', JNum c)])))
   \<and> ((\<forall>st\<in>set enrolled. student_is_active st \<longrightarrow> \<not> has_descriptor st) \<longrightarrow>
        (\<exists>ss''. analyze_faces sv enrolled current_time t now fds ss = (None, ss'')
           \<and> results ss'' = results ss @ replicate (length fds) unknown_record
           \<and> calls ss'' = calls ss))"
proof -
  have rec: "\<exists>st\<in>set studs. student_is_active st \<and> has_descriptor st
           \<and> log_student_id (last (pending_logs ss')) = Some (student_pk st)
           \<and> (\<exists>c. last (results ss') =
                 JObj [(''recognized'', JBool True), (''name'', JStr (name st)),
                       (''confidence'', JNum c)])"
    if a: "analyze_face sv studs current_time t now fd ss = (None, ss')"
      and b: "is_recognized (last (pending_logs ss'))"
  proof -
    let ?sims = "similarities sv (features fd) (filter student_is_active studs)"
    from analyze_face_cases [OF a] b obtain st cs where
      f: "find (\<lambda>p. snd p = Max (snd ` set ?sims)) ?sims = Some (st, Max (snd ` set ?sims))" and
      ss': "ss' = ss\<lparr>calls := cs,
                     pending_logs := pending_logs ss @
                        [\<lparr>log_student_id = Some (student_pk st), is_recognized = True,
                          confidence_score =
                            (if Max (snd ` set ?sims) > 0 then Some (Max (snd ` set ?sims)) else None),
                          entry_time = current_time\<rparr>],
                     results := results ss @
                        [JObj [(''recognized'', JBool True), (''name'', JStr (name st)),
                               (''confidence'', JNum (Max (snd ` set ?sims)))]]\<rparr>"
      by (auto simp: unmatched_outcome_def)
    from f have "(st, Max (snd ` set ?sims)) \<in> set ?sims" by (auto simp: find_Some_iff)
    from similarities_described [OF this] have "st \<in> set studs" "student_is_active st"
      "has_descriptor st" by simp_all
    then show ?thesis using ss' by auto
  qed
  show ?thesis
    using match_students_filter [of sv feats studs m b cs]
      match_students_calls [of sv feats studs m b cs] rec
      analyze_faces_none_described [of enrolled sv current_time t now fds ss]
    by blast
qed

theorem undescribed_identity_never_compared_witness:
  "match_students demo_services (features_json ''live'') [dave, bob, erin] None 0 [] =
     ([CompareFaces (features_json ''live'') (features_json ''b'')], Inr (Some bob, 0.9))
   \<and> filter has_descriptor [dave, bob, erin] = [bob]
   \<and> fst (analyze_face demo_services [dave, bob, erin] ''10:00'' 100 ''10:00:00''
             demo_face empty_session) = None
   \<and> log_student_id (last (pending_logs (snd (analyze_face demo_services [dave, bob, erin]
        ''10:00'' 100 ''10:00:00'' demo_face empty_session)))) = Some 2
   \<and> \<not> has_descriptor dave \<and> \<not> has_descriptor erin
   \<and> (\<exists>ss''. analyze_faces demo_services [dave, erin] ''10:00'' 100 ''10:00:00''
                [demo_face, demo_face] empty_session = (None, ss'')
         \<and> results ss'' = [unknown_record, unknown_record] \<and> calls ss'' = [])"
proof -
  let ?run = "analyze_face demo_services [dave, bob, erin] ''10:00'' 100 ''10:00:00''
             demo_face empty_session"
  have m: "match_students demo_services (features_json ''live'') [dave, bob, erin] None 0 [] =
     ([CompareFaces (features_json ''live'') (features_json ''b'')], Inr (Some bob, 0.9))"
    by (simp add: model_defs demo_defs)
  have d: "filter has_descriptor [dave, bob, erin] = [bob]"
    by (simp add: has_descriptor_def demo_defs)
  have r: "fst ?run = None"
    by (simp add: model_defs demo_defs demo_face_def empty_session_def)
  then have h: "?run = (None, snd ?run)" by (simp add: prod_eq_iff)
  have rec: "is_recognized (last (pending_logs (snd ?run)))"
    and pk: "log_student_id (last (pending_logs (snd ?run))) = Some 2"
    by (simp_all add: model_defs demo_defs demo_face_def empty_session_def)
  have none: "\<forall>st\<in>set [dave, erin]. student_is_active st \<longrightarrow> \<not> has_descriptor st"
    by (simp add: has_descriptor_def demo_defs)
  from undescribed_identity_never_compared [of demo_services "features_json ''live''"
      "[dave, bob, erin]" None 0 "[]" "''10:00''" 100 "''10:00:00''" demo_face empty_session
      "snd ?run" "[dave, erin]" "[demo_face, demo_face]"] h rec none
  have "\<exists>ss''. analyze_faces demo_services [dave, erin] ''10:00'' 100 ''10:00:00''
                [demo_face, demo_face] empty_session = (None, ss'')
         \<and> results ss'' = results empty_session @ replicate (length [demo_face, demo_face]) unknown_record
         \<and> calls ss'' = calls empty_session" by blast
  then have "\<exists>ss''. analyze_faces demo_services [dave, erin] ''10:00'' 100 ''10:00:00''
                [demo_face, demo_face] empty_session = (None, ss'')
         \<and> results ss'' = [unknown_record, unknown_record] \<and> calls ss'' = []"
    by (simp add: empty_session_def numeral_2_eq_2)
  moreover have "\<not> has_descriptor dave \<and> \<not> has_descriptor erin"
    by (simp add: has_descriptor_def demo_defs)
  ultimately show ?thesis using m d r pk by blast
qed

subsection \<open>A face whose features could not be extracted\<close>

lemma offline_extraction_fails: "extract_face_features offline_extraction [0, 0, 0] = JNull"
  by (simp add: extract_face_features_def offline_extraction_def demo_defs)

text \<open>
  Claim C2, as the code has it. A detected face whose feature extraction returns no
  descriptor is kept by \<open>process_frame_for_faces\<close> with empty features; the analysis
  compares it with no student and records it as an unmatched face: one row of the entry
  log (not recognised, no student, no confidence), one alert of high severity, one
  call of trigger, and the record of an unknown person in the answer.
\<close>

theorem failed_extraction_still_recorded:
  "(crop_region sv frame (dict_get face_dict ''bbox'' (JObj [])) = Some cropped \<and> cropped \<noteq> []
      \<and> extract_face_features sv cropped = JNull \<longrightarrow>
      process_faces sv frame [JObj face_dict] (cs, acc) =
        (cs @ [ExtractFeatures cropped],
         acc @ [\<lparr>bbox = dict_get face_dict ''bbox'' (JObj []),
                 confidence = dict_get face_dict ''confidence'' (JNum 0),
                 features = JNull, face_region = cropped\<rparr>]))
   \<and> (features fd = JNull \<longrightarrow>
        analyze_face sv studs current_time t now fd ss =
          (None, unmatched_outcome current_time t now ss)
        \<and> calls (unmatched_outcome current_time t now ss) = calls ss)"
  by (simp add: analyze_face_no_features unmatched_outcome_def Let_def)

theorem failed_extraction_still_recorded_witness:
  "crop_region offline_extraction [0, 0, 0] (dict_get [(''bbox'', whole_box)] ''bbox'' (JObj []))
     = Some [0, 0, 0]
   \<and> extract_face_features offline_extraction [0, 0, 0] = JNull
   \<and> process_faces offline_extraction [0, 0, 0] [JObj [(''bbox'', whole_box)]] ([], []) =
       ([ExtractFeatures [0, 0, 0]],
        [\<lparr>bbox = whole_box, confidence = JNum 0, features = JNull, face_region = [0, 0, 0]\<rparr>])
   \<and> analyze_face offline_extraction [alice] ''10:00'' 100 ''10:00:00''
        \<lparr>bbox = whole_box, confidence = JNum 0, features = JNull, face_region = [0, 0, 0]\<rparr>
        empty_session =
       (None, unmatched_outcome ''10:00'' 100 ''10:00:00'' empty_session)"
proof -
  have c: "crop_region offline_extraction [0, 0, 0]
      (dict_get [(''bbox'', whole_box)] ''bbox'' (JObj [])) = Some [0, 0, 0]"
    by (simp add: offline_extraction_def demo_defs dict_get_def)
  have f: "features \<lparr>bbox = whole_box, confidence = JNum 0, features = JNull,
      face_region = [0, 0, 0]\<rparr> = JNull" by simp
  from failed_extraction_still_recorded [of offline_extraction "[0, 0, 0]" "[(''bbox'', whole_box)]"
      "[0, 0, 0]" "[]" "[]"
      "\<lparr>bbox = whole_box, confidence = JNum 0, features = JNull, face_region = [0, 0, 0]\<rparr>"
      "[alice]" "''10:00''" 100 "''10:00:00''" empty_session]
    c f offline_extraction_fails
  show ?thesis by (simp add: dict_get_def)
qed

text \<open>
  The claim as the specification states it (such a face is skipped: no outcome, no
  row, no alert) fails on a frame with one face when the extraction request times out.
\<close>

theorem failed_extraction_counterexample:
  "extract_face_features offline_extraction [0, 0, 0] = JNull
   \<and> fst (analyze_frame offline_extraction demo_request ''10:00'' 100 ''10:00:00''
             (demo_world [alice])) =
       JObj [(''status'', JStr ''success''), (''faces_detected'', JNum 1),
             (''results'', JArr [unknown_record])]
   \<and> entry_logs (snd (analyze_frame offline_extraction demo_request ''10:00'' 100 ''10:00:00''
             (demo_world [alice]))) =
       [\<lparr>log_student_id = None, is_recognized = False, confidence_score = None,
         entry_time = ''10:00''\<rparr>]
   \<and> system_alerts (snd (analyze_frame offline_extraction demo_request ''10:00'' 100 ''10:00:00''
             (demo_world [alice]))) =
       [\<lparr>alert_alert_type = ''unknown_person'',
         alert_message = ''Unknown person detected at 10:00'', alert_severity = ''high''\<rparr>]
   \<and> is_active (alarm_system (snd (analyze_frame offline_extraction demo_request ''10:00'' 100
             ''10:00:00'' (demo_world [alice]))))
   \<and> made_calls (snd (analyze_frame offline_extraction demo_request ''10:00'' 100 ''10:00:00''
             (demo_world [alice]))) =
       [DecodeFrame (JStr ''anBn''), DetectFaces [0, 0, 0], ExtractFeatures [0, 0, 0]]"
  by (simp add: model_defs demo_defs unknown_record_def)

subsection \<open>Malformed responses\<close>

text \<open>
  Claim C3, as the code has it. For a response of status 200 whose text has a
  brace-delimited part that is not JSON, detection returns the empty list and
  comparison returns 0.0, as each does on a network timeout; feature extraction
  returns a descriptor made of the raw text, where a timeout gives no descriptor. For a
  text with no brace-delimited part, feature extraction returns no descriptor, as on a
  timeout.
\<close>

theorem malformed_json_versus_timeout:
  assumes "encode_image sv img = Some b64" and "b64 \<noteq> []"
    and "truthy f1" and "truthy f2"
    and "brace_delimited content" and "json_loads sv (json_substring content) = None"
    and "\<not> brace_delimited text"
  shows "detect_faces_in_image (sv\<lparr>post_detect := \<lambda>_. Response 200 (Some content)\<rparr>) img = JArr []
       \<and> detect_faces_in_image (sv\<lparr>post_detect := \<lambda>_. RequestFailed\<rparr>) img = JArr []
       \<and> compare_faces (sv\<lparr>post_compare := \<lambda>_ _. Response 200 (Some content)\<rparr>) f1 f2 = JNum 0
       \<and> compare_faces (sv\<lparr>post_compare := \<lambda>_ _. RequestFailed\<rparr>) f1 f2 = JNum 0
       \<and> extract_face_features (sv\<lparr>post_extract := \<lambda>_. Response 200 (Some content)\<rparr>) img
            = fallback_descriptor sv content
       \<and> extract_face_features (sv\<lparr>post_extract := \<lambda>_. Response 200 (Some text)\<rparr>) img = JNull
       \<and> extract_face_features (sv\<lparr>post_extract := \<lambda>_. RequestFailed\<rparr>) img = JNull"
  using assms
  by (auto simp: detect_faces_in_image_def compare_faces_def extract_face_features_def
       brace_delimited_def json_substring_def fallback_descriptor_def Let_def)

theorem malformed_json_versus_timeout_witness:
  "encode_image demo_services [0, 0, 0] = Some ''aW1n''
   \<and> brace_delimited ''{oops}'' \<and> json_loads demo_services (json_substring ''{oops}'') = None
   \<and> \<not> brace_delimited ''no json here''
   \<and> detect_faces_in_image (demo_services\<lparr>post_detect := \<lambda>_. Response 200 (Some ''{oops}'')\<rparr>)
        [0, 0, 0] = JArr []
   \<and> extract_face_features (demo_services\<lparr>post_extract := \<lambda>_. Response 200 (Some ''{oops}'')\<rparr>)
        [0, 0, 0] = fallback_descriptor demo_services ''{oops}''
   \<and> compare_faces (demo_services\<lparr>post_compare := \<lambda>_ _. Response 200 (Some ''{oops}'')\<rparr>)
        (features_json ''live'') (features_json ''a'') = JNum 0"
proof -
  have 1: "encode_image demo_services [0, 0, 0] = Some ''aW1n''" by (simp add: demo_defs)
  have 2: "''aW1n'' \<noteq> []" by simp
  have 3: "truthy (features_json ''live'')" "truthy (features_json ''a'')"
    by (simp_all add: features_json_def)
  have 4: "brace_delimited ''{oops}''" by (simp add: brace_delimited_def py_find_def py_rfind_def)
  have 5: "json_loads demo_services (json_substring ''{oops}'') = None"
    by (simp add: json_substring_def py_find_def py_rfind_def py_slice_def demo_defs)
  have 6: "\<not> brace_delimited ''no json here''"
    by (simp add: brace_delimited_def py_find_def py_rfind_def)
  from malformed_json_versus_timeout [OF 1 2 3 4 5 6] 1 4 5 6 show ?thesis by simp
qed

text \<open>
  The claim as the specification states it fails for feature extraction on the text
  \<open>{oops}\<close>.
\<close>

theorem malformed_extraction_counterexample:
  "extract_face_features garbled_extraction [0, 0, 0] =
     JObj [(''feature_vector'', JStr ''{oops}''), (''key_features'', JArr []),
           (''face_hash'', JStr ''0'')]
   \<and> extract_face_features offline_extraction [0, 0, 0] = JNull
   \<and> extract_face_features garbled_extraction [0, 0, 0]
       \<noteq> extract_face_features offline_extraction [0, 0, 0]"
  by (simp add: extract_face_features_def py_find_def py_rfind_def py_slice_def demo_defs)

text \<open>
  Where the text has no brace at all, \<open>detect_faces_in_image\<close> falls off its end
  and returns \<open>None\<close>.
\<close>

lemma detection_without_braces:
  "detect_faces_in_image
     (demo_services\<lparr>post_detect := \<lambda>_. Response 200 (Some ''no json here'')\<rparr>) [0, 0, 0] = JNull"
  by (simp add: detect_faces_in_image_def py_find_def py_rfind_def py_slice_def demo_defs)

subsection \<open>Monitoring disabled\<close>

text \<open>
  Claim C6. With monitoring disabled, the analysis of a submitted frame answers with
  the status "skipped" and leaves the process as it was, whatever the request and
  whatever the outside world would have answered: no frame is decoded, no capability is
  called, no row, alert or trigger is produced.
\<close>

theorem monitoring_disabled_skips:
  "\<not> monitoring_active w \<Longrightarrow>
     analyze_frame sv data current_time t now w =
       (JObj [(''status'', JStr ''skipped''), (''message'', JStr ''Monitoring not active'')], w)"
  by (simp add: analyze_frame_def)

theorem monitoring_disabled_skips_witness:
  "\<not> monitoring_active ((demo_world [alice])\<lparr>monitoring_active := False\<rparr>)
   \<and> analyze_frame demo_services demo_request ''10:00'' 100 ''10:00:00''
        ((demo_world [alice])\<lparr>monitoring_active := False\<rparr>) =
       (JObj [(''status'', JStr ''skipped''), (''message'', JStr ''Monitoring not active'')],
        (demo_world [alice])\<lparr>monitoring_active := False\<rparr>)"
proof -
  have h: "\<not> monitoring_active ((demo_world [alice])\<lparr>monitoring_active := False\<rparr>)" by simp
  from monitoring_disabled_skips [OF h] h show ?thesis by blast
qed

subsection \<open>The answer of a successful analysis\<close>

text \<open>
  Claim C8, as the code has it. An analysis that answers with the status "success"
  carries the number of faces detected and one record for each of them; the record of
  a recognised face has a true \<open>recognized\<close>, the name of the student and a
  confidence, while the record of an unmatched face has a false \<open>recognized\<close> and the
  name "Unknown", and no confidence.
\<close>

theorem success_response_shape:
  assumes "analyze_frame sv data current_time t now w = (JObj kvs, w')"
    and "map_of kvs ''status'' = Some (JStr ''success'')"
  shows "\<exists>frame_b64 frame cs detected_faces rs.
           frame_field data = Inr frame_b64
         \<and> decode_frame sv frame_b64 = Inr (Some frame)
         \<and> process_frame_for_faces sv frame = (cs, Inr detected_faces)
         \<and> kvs = [(''status'', JStr ''success''),
                   (''faces_detected'', JNum (real (length detected_faces))),
                   (''results'', JArr rs)]
         \<and> length rs = length detected_faces
         \<and> (\<forall>r\<in>set rs. face_record r)"
proof -
  have active: "monitoring_active w"
  proof (rule ccontr)
    assume "\<not> monitoring_active w"
    with assms show False by (auto simp: analyze_frame_def)
  qed
  from assms active obtain frame_b64 where ff: "frame_field data = Inr frame_b64"
    by (cases "frame_field data")
       (auto simp: analyze_frame_def error_response_def split: option.splits)
  from assms active ff obtain frame where dec: "decode_frame sv frame_b64 = Inr (Some frame)"
    and ne: "length frame \<noteq> 0"
    by (cases "decode_frame sv frame_b64")
       (auto simp: analyze_frame_def error_response_def Let_def split: option.splits if_splits)
  obtain cs r where pf: "process_frame_for_faces sv frame = (cs, r)"
    by (cases "process_frame_for_faces sv frame")
  from assms active ff dec ne pf obtain detected_faces where r: "r = Inr detected_faces"
    by (cases r) (auto simp: analyze_frame_def error_response_def Let_def)
  let ?ss0 = "\<lparr>pending_logs = [], pending_alerts = [], results = [], alarm = alarm_system w,
               calls = made_calls (w\<lparr>made_calls := made_calls w @ [DecodeFrame frame_b64]\<rparr>) @ cs\<rparr>"
  obtain e ss where af: "analyze_faces sv (students w) current_time t now detected_faces ?ss0 = (e, ss)"
    by (cases "analyze_faces sv (students w) current_time t now detected_faces ?ss0")
  from assms active ff dec ne pf r af have e: "e = None"
    and kvs: "kvs = [(''status'', JStr ''success''),
                   (''faces_detected'', JNum (real (length detected_faces))),
                   (''results'', JArr (results ss))]"
    by (cases e; auto simp: analyze_frame_def error_response_def Let_def)+
  from analyze_faces_results [OF af [unfolded e]]
  have "length (results ss) = length detected_faces \<and> (\<forall>r\<in>set (results ss). face_record r)"
    by auto
  with ff dec pf r kvs show ?thesis by blast
qed

theorem success_response_shape_witness:
  "fst (analyze_frame demo_services demo_request ''10:00'' 100 ''10:00:00''
          (demo_world [alice, bob, carol, dave])) =
      JObj [(''status'', JStr ''success''), (''faces_detected'', JNum 1),
            (''results'', JArr [JObj [(''recognized'', JBool True),
               (''name'', JStr ''Bob''), (''confidence'', JNum 0.9)]])]
   \<and> face_record (JObj [(''recognized'', JBool True), (''name'', JStr ''Bob''),
                          (''confidence'', JNum 0.9)])"
proof -
  let ?run = "analyze_frame demo_services demo_request ''10:00'' 100 ''10:00:00''
          (demo_world [alice, bob, carol, dave])"
  let ?kvs = "[(''status'', JStr ''success''), (''faces_detected'', JNum 1),
                         (''results'', JArr [JObj [(''recognized'', JBool True),
                            (''name'', JStr ''Bob''), (''confidence'', JNum 0.9)]])]"
  have run: "fst ?run = JObj ?kvs"
    by (simp add: model_defs demo_defs)
  then have h: "?run = (JObj ?kvs, snd ?run)" by (simp add: prod_eq_iff)
  have st: "map_of ?kvs ''status'' = Some (JStr ''success'')" by simp
  from success_response_shape [OF h st]
  have "face_record (JObj [(''recognized'', JBool True), (''name'', JStr ''Bob''),
                          (''confidence'', JNum 0.9)])" by auto
  with run show ?thesis by simp
qed

text \<open>
  The claim as the specification states it (every record has a confidence field)
  fails on a frame whose one face matches no student.
\<close>

theorem unknown_record_counterexample:
  "fst (analyze_frame demo_services demo_request ''10:00'' 100 ''10:00:00'' (demo_world [alice]))
     = JObj [(''status'', JStr ''success''), (''faces_detected'', JNum 1),
             (''results'', JArr [JObj [(''recognized'', JBool False), (''name'', JStr ''Unknown'')]])]
   \<and> map_of [(''recognized'', JBool False), (''name'', JStr ''Unknown'')] ''confidence'' = None"
  by (simp add: model_defs demo_defs)

end
